theory Spec2Isabelle
  imports Complex_Main
begin

section \<open>Number model\<close>

text \<open>
  The program computes with JavaScript numbers. They are modelled as exact reals
  (\<^typ>\<open>real\<close>): rounding is outside the model, and so are the special values NaN
  and Infinity everywhere but in the position sizer, which has a number type with them. Counters that the code only ever increments from zero or reads from a list
  length are natural numbers, and millisecond timestamps (\<^verbatim>\<open>Date.now()\<close>) are passed
  in as a parameter \<open>now\<close>. Where the source divides, the model divides too, and
  the model is the source's only where the divisor is not zero; a theorem that states
  the value of such a quotient, or of a number computed from it, says that the divisor
  is not zero.
  Calls to the logger and the write of the closed history to disk are effects on
  collaborators and are not part of the modelled state.
\<close>

section \<open>Data model (utils/types.ts)\<close>

datatype regime = choppy | weak | moderate | strong

datatype level_status = level_active | level_closed

datatype position_status = status_open | status_closed

datatype ai_choice = BUY | HOLD

record AIDecision =
  decision :: ai_choice
  confidence :: real
  reasoning :: "string list"

text \<open>
  A pyramid level. The fields \<^verbatim>\<open>entryPrice\<close>, \<^verbatim>\<open>volume\<close>, \<^verbatim>\<open>entryTime\<close> and \<^verbatim>\<open>status\<close> of the
  source share their names with fields of a position, so here they carry the prefix
  \<open>level\<close>.
\<close>

record PyramidLevel =
  level :: nat
  levelEntryPrice :: real
  levelVolume :: real
  levelEntryTime :: nat
  triggerProfitPct :: real
  aiConfidence :: real
  levelStatus :: level_status

text \<open>
  An open or closed position. The source field \<^verbatim>\<open>adx\<close> is \<open>entryADX\<close> here, since the
  indicator snapshot has a field of the same name.
\<close>

record Position =
  pair :: string
  entryPrice :: real
  volume :: real
  entryTime :: nat
  stopLoss :: real
  profitTarget :: real
  pyramidLevels :: "PyramidLevel list"
  totalVolume :: real
  pyramidLevelsActivated :: nat
  currentProfit :: real
  profitPct :: real
  peakProfit :: real
  erosionCap :: real
  erosionUsed :: real
  aiReasoning :: "string list"
  entryADX :: real
  regime :: regime
  status :: position_status
  exitPrice :: "real option"
  exitTime :: "nat option"
  exitReason :: "string option"

section \<open>Position ledger (PositionTracker.ts)\<close>

text \<open>
  The tracker owns a map from instrument to open position and the list of closed
  positions, in closing order. Every method takes the tracker and returns the new one;
  a method with a result returns it beside the tracker.
\<close>

record PositionTracker =
  positions :: "string \<rightharpoonup> Position"
  closedPositions :: "Position list"

definition addPosition ::
  "PositionTracker \<Rightarrow> string \<Rightarrow> real \<Rightarrow> real \<Rightarrow> real \<Rightarrow> real \<Rightarrow> AIDecision \<Rightarrow> real \<Rightarrow> regime
     \<Rightarrow> real \<Rightarrow> nat \<Rightarrow> PositionTracker" where
  "addPosition t pr entry vol stop target aiDecision adxAtEntry rg cap now =
     (if positions t pr \<noteq> None then t
      else t\<lparr>positions := (positions t)(pr \<mapsto>
             \<lparr>pair = pr, entryPrice = entry, volume = vol, entryTime = now,
              stopLoss = stop, profitTarget = target,
              pyramidLevels = [], totalVolume = vol, pyramidLevelsActivated = 0,
              currentProfit = 0, profitPct = 0, peakProfit = 0,
              erosionCap = cap, erosionUsed = 0,
              aiReasoning = reasoning aiDecision, entryADX = adxAtEntry, regime = rg,
              status = status_open,
              exitPrice = None, exitTime = None, exitReason = None\<rparr>)\<rparr>)"

definition getPosition :: "PositionTracker \<Rightarrow> string \<Rightarrow> Position option" where
  "getPosition t pr = positions t pr"

text \<open>
  The loop of \<^verbatim>\<open>updatePosition\<close> over the pyramid levels: it adds each level's profit
  at the current price and each level's cost to the two running totals.
\<close>

fun sumLevels :: "real \<Rightarrow> PyramidLevel list \<Rightarrow> real \<times> real \<Rightarrow> real \<times> real" where
  "sumLevels currentPrice [] acc = acc"
| "sumLevels currentPrice (l # ls) (totalProfit, totalCost) =
     sumLevels currentPrice ls
       (totalProfit + (currentPrice - levelEntryPrice l) * levelVolume l,
        totalCost + levelEntryPrice l * levelVolume l)"

text \<open>
  The body of \<^verbatim>\<open>updatePosition\<close> on the position it found, in two parts: \<open>revalue\<close>
  recomputes profit and profit percentage over all legs, \<open>trackPeak\<close> is the final
  peak and erosion bookkeeping.
\<close>

definition trackPeak :: "Position \<Rightarrow> Position" where
  "trackPeak p =
     (if currentProfit p > peakProfit p
      then p\<lparr>peakProfit := currentProfit p, erosionUsed := 0\<rparr>
      else p\<lparr>erosionUsed := peakProfit p - currentProfit p\<rparr>)"

definition revalue :: "Position \<Rightarrow> real \<Rightarrow> Position" where
  "revalue p currentPrice =
     (let l0Cost = entryPrice p * volume p;
          l0Profit = (currentPrice - entryPrice p) * volume p;
          (totalProfit, totalCost) =
             sumLevels currentPrice (pyramidLevels p) (0 + l0Profit, 0 + l0Cost)
      in trackPeak
           (p\<lparr>currentProfit := totalProfit,
              profitPct := (if totalCost > 0 then (totalProfit / totalCost) * 100 else 0)\<rparr>))"

definition updatePosition :: "PositionTracker \<Rightarrow> string \<Rightarrow> real \<Rightarrow> PositionTracker" where
  "updatePosition t pr currentPrice =
     (case positions t pr of
        None \<Rightarrow> t
      | Some p \<Rightarrow> t\<lparr>positions := (positions t)(pr \<mapsto> revalue p currentPrice)\<rparr>)"

text \<open>
  The successful path of \<^verbatim>\<open>addPyramidLevel\<close>: the position with the new level pushed,
  its volume added to the total and the count of activated levels incremented.
\<close>

definition withLevel :: "Position \<Rightarrow> nat \<Rightarrow> real \<Rightarrow> real \<Rightarrow> real \<Rightarrow> nat \<Rightarrow> Position" where
  "withLevel p lv entry vol conf now =
     (let triggerPct = (if lv = 1 then 0.045 else 0.08);
          pyramidLevel = \<lparr>level = lv, levelEntryPrice = entry, levelVolume = vol,
                          levelEntryTime = now, triggerProfitPct = triggerPct,
                          aiConfidence = conf, levelStatus = level_active\<rparr>
      in p\<lparr>pyramidLevels := pyramidLevels p @ [pyramidLevel],
           totalVolume := totalVolume p + vol,
           pyramidLevelsActivated := pyramidLevelsActivated p + 1\<rparr>)"

definition addPyramidLevel ::
  "PositionTracker \<Rightarrow> string \<Rightarrow> nat \<Rightarrow> real \<Rightarrow> real \<Rightarrow> real \<Rightarrow> nat \<Rightarrow> bool \<times> PositionTracker" where
  "addPyramidLevel t pr lv entry vol conf now =
     (case positions t pr of
        None \<Rightarrow> (False, t)
      | Some p \<Rightarrow>
          if pyramidLevelsActivated p \<ge> 2 then (False, t)
          else if list_ex (\<lambda>l. level l = lv) (pyramidLevels p) then (False, t)
          else (True, t\<lparr>positions := (positions t)(pr \<mapsto> withLevel p lv entry vol conf now)\<rparr>))"

definition checkErosionCap :: "PositionTracker \<Rightarrow> string \<Rightarrow> bool" where
  "checkErosionCap t pr =
     (case positions t pr of
        None \<Rightarrow> False
      | Some p \<Rightarrow>
          if pyramidLevelsActivated p = 0 then False
          else if erosionUsed p > erosionCap p then True
          else False)"

definition checkStopLoss :: "PositionTracker \<Rightarrow> string \<Rightarrow> real \<Rightarrow> bool" where
  "checkStopLoss t pr currentPrice =
     (case positions t pr of
        None \<Rightarrow> False
      | Some p \<Rightarrow> currentPrice \<le> stopLoss p)"

definition checkProfitTarget :: "PositionTracker \<Rightarrow> string \<Rightarrow> real \<Rightarrow> bool" where
  "checkProfitTarget t pr currentPrice =
     (case positions t pr of
        None \<Rightarrow> False
      | Some p \<Rightarrow> currentPrice \<ge> profitTarget p)"

definition isReadyForL1 :: "PositionTracker \<Rightarrow> string \<Rightarrow> real \<Rightarrow> real \<Rightarrow> bool" where
  "isReadyForL1 t pr profit l1TriggerPct =
     (case positions t pr of
        None \<Rightarrow> False
      | Some p \<Rightarrow>
          if pyramidLevelsActivated p \<ge> 1 then False
          else profit \<ge> l1TriggerPct)"

definition isReadyForL2 :: "PositionTracker \<Rightarrow> string \<Rightarrow> real \<Rightarrow> real \<Rightarrow> bool" where
  "isReadyForL2 t pr profit l2TriggerPct =
     (case positions t pr of
        None \<Rightarrow> False
      | Some p \<Rightarrow>
          if pyramidLevelsActivated p < 1 then False
          else if pyramidLevelsActivated p \<ge> 2 then False
          else profit \<ge> l2TriggerPct)"

text \<open>
  The body of \<^verbatim>\<open>closePosition\<close> on the position it found: the exit fields are set and
  profit is recomputed, before the position is moved to the closed list.
\<close>

definition settle :: "Position \<Rightarrow> real \<Rightarrow> string \<Rightarrow> nat \<Rightarrow> Position" where
  "settle p exit reason now =
     (let p1 = p\<lparr>exitPrice := Some exit, exitTime := Some now, exitReason := Some reason,
                 status := status_closed\<rparr>;
          pct = (exit - entryPrice p1) / entryPrice p1
      in p1\<lparr>profitPct := pct * 100,
            currentProfit := volume p1 * pct * entryPrice p1\<rparr>)"

definition closePosition ::
  "PositionTracker \<Rightarrow> string \<Rightarrow> real \<Rightarrow> string \<Rightarrow> nat \<Rightarrow> PositionTracker" where
  "closePosition t pr exit reason now =
     (case positions t pr of
        None \<Rightarrow> t
      | Some p \<Rightarrow>
          t\<lparr>closedPositions := closedPositions t @ [settle p exit reason now],
            positions := (positions t)(pr := None)\<rparr>)"

section \<open>Sequences of ledger calls\<close>

text \<open>
  The invariants of the ledger speak about a position after any sequence of calls that
  mutate it. \<open>ledger_call\<close> names the two mutating calls on an open position and
  \<open>calls\<close> replays a sequence of them on one instrument, in order.
\<close>

datatype ledger_call =
  Update real
| AddLevel nat real real real nat

fun call :: "PositionTracker \<Rightarrow> string \<Rightarrow> ledger_call \<Rightarrow> PositionTracker" where
  "call t pr (Update currentPrice) = updatePosition t pr currentPrice"
| "call t pr (AddLevel lv entry vol conf now) = snd (addPyramidLevel t pr lv entry vol conf now)"

fun calls :: "PositionTracker \<Rightarrow> string \<Rightarrow> ledger_call list \<Rightarrow> PositionTracker" where
  "calls t pr [] = t"
| "calls t pr (c # cs) = calls (call t pr c) pr cs"

text \<open>
  \<open>lossAtEveryUpdate t pr cs\<close>: replaying \<open>cs\<close> from \<open>t\<close>, every \<open>Update\<close> leaves the
  position of \<open>pr\<close> with a negative current profit.
\<close>

fun lossAtEveryUpdate :: "PositionTracker \<Rightarrow> string \<Rightarrow> ledger_call list \<Rightarrow> bool" where
  "lossAtEveryUpdate t pr [] = True"
| "lossAtEveryUpdate t pr (Update currentPrice # cs) =
     ((case positions (updatePosition t pr currentPrice) pr of
         None \<Rightarrow> False
       | Some p \<Rightarrow> currentProfit p < 0)
      \<and> lossAtEveryUpdate (updatePosition t pr currentPrice) pr cs)"
| "lossAtEveryUpdate t pr (c # cs) = lossAtEveryUpdate (call t pr c) pr cs"

fun isUpdate :: "ledger_call \<Rightarrow> bool" where
  "isUpdate (Update currentPrice) = True"
| "isUpdate (AddLevel lv entry vol conf now) = False"

section \<open>Performance statistics (PositionTracker.getPerformanceStats)\<close>

text \<open>
  \<^verbatim>\<open>profitFactor\<close> is the one number of the program that is set to Infinity on purpose,
  so it has a type of its own.
\<close>

datatype profit_factor = Finite real | Infinite

record PerformanceStats =
  totalTrades :: nat
  winningTrades :: nat
  losingTrades :: nat
  winRate :: real
  totalProfit :: real
  totalLoss :: real
  expectancy :: real
  profitFactor :: profit_factor
  maxDrawdown :: real
  maxDrawdownPct :: real

text \<open>The running totals of the loop over the closed positions.\<close>

record stats_acc =
  accProfit :: real
  accLoss :: real
  accWinning :: nat
  accLosing :: nat
  accMaxDrawdown :: real
  accCumulative :: real
  accPeak :: real

definition statsStep :: "stats_acc \<Rightarrow> Position \<Rightarrow> stats_acc" where
  "statsStep a position =
     (let profit = currentProfit position;
          a1 = (if profit > 0
                then a\<lparr>accProfit := accProfit a + profit, accWinning := accWinning a + 1\<rparr>
                else a\<lparr>accLoss := accLoss a + \<bar>profit\<bar>, accLosing := accLosing a + 1\<rparr>);
          a2 = a1\<lparr>accCumulative := accCumulative a1 + profit\<rparr>;
          a3 = (if accCumulative a2 > accPeak a2 then a2\<lparr>accPeak := accCumulative a2\<rparr> else a2);
          drawdown = accPeak a3 - accCumulative a3
      in if drawdown > accMaxDrawdown a3 then a3\<lparr>accMaxDrawdown := drawdown\<rparr> else a3)"

fun statsLoop :: "stats_acc \<Rightarrow> Position list \<Rightarrow> stats_acc" where
  "statsLoop a [] = a"
| "statsLoop a (position # rest) = statsLoop (statsStep a position) rest"

definition getPerformanceStats :: "PositionTracker \<Rightarrow> PerformanceStats" where
  "getPerformanceStats t =
     (if length (closedPositions t) = 0
      then \<lparr>totalTrades = 0, winningTrades = 0, losingTrades = 0, winRate = 0,
            totalProfit = 0, totalLoss = 0, expectancy = 0, profitFactor = Finite 0,
            maxDrawdown = 0, maxDrawdownPct = 0\<rparr>
      else
        let a = statsLoop \<lparr>accProfit = 0, accLoss = 0, accWinning = 0, accLosing = 0,
                           accMaxDrawdown = 0, accCumulative = 0, accPeak = 0\<rparr>
                  (closedPositions t);
            trades = length (closedPositions t);
            totalGain = accProfit a - accLoss a
        in \<lparr>totalTrades = trades,
            winningTrades = accWinning a,
            losingTrades = accLosing a,
            winRate = (if trades > 0 then (real (accWinning a) / real trades) * 100 else 0),
            totalProfit = accProfit a,
            totalLoss = accLoss a,
            expectancy = (if trades > 0 then totalGain / real trades else 0),
            profitFactor = (if accLoss a > 0 then Finite (accProfit a / accLoss a)
                            else if accProfit a > 0 then Infinite else Finite 0),
            maxDrawdown = accMaxDrawdown a,
            maxDrawdownPct = (if accPeak a > 0 then (accMaxDrawdown a / accPeak a) * 100 else 0)\<rparr>)"

section \<open>Position sizer (DynamicPositionSizer.ts)\<close>

text \<open>
  The sizer divides by the account balance, and nothing in the source keeps the
  balance away from zero, so the numbers it computes can leave the finite ones. They
  are modelled as \<open>jsnum\<close>: an exact real or one of the three special values of a
  JavaScript number. The operations below follow IEEE 754 on the special values and
  are exact on the reals; rounding and overflow are still outside the model, and a zero
  divisor is taken to be the positive zero (the balance comes from \<^verbatim>\<open>parseFloat\<close> of a
  balance and is multiplied by a positive count).
\<close>

datatype jsnum = Number real | PosInfinity | NegInfinity | NaN

fun jsMul :: "jsnum \<Rightarrow> jsnum \<Rightarrow> jsnum" where
  "jsMul NaN b = NaN"
| "jsMul a NaN = NaN"
| "jsMul (Number x) (Number y) = Number (x * y)"
| "jsMul (Number x) PosInfinity =
     (if x > 0 then PosInfinity else if x < 0 then NegInfinity else NaN)"
| "jsMul (Number x) NegInfinity =
     (if x > 0 then NegInfinity else if x < 0 then PosInfinity else NaN)"
| "jsMul PosInfinity (Number y) =
     (if y > 0 then PosInfinity else if y < 0 then NegInfinity else NaN)"
| "jsMul NegInfinity (Number y) =
     (if y > 0 then NegInfinity else if y < 0 then PosInfinity else NaN)"
| "jsMul PosInfinity PosInfinity = PosInfinity"
| "jsMul PosInfinity NegInfinity = NegInfinity"
| "jsMul NegInfinity PosInfinity = NegInfinity"
| "jsMul NegInfinity NegInfinity = PosInfinity"

fun jsSub :: "jsnum \<Rightarrow> jsnum \<Rightarrow> jsnum" where
  "jsSub NaN b = NaN"
| "jsSub a NaN = NaN"
| "jsSub (Number x) (Number y) = Number (x - y)"
| "jsSub (Number x) PosInfinity = NegInfinity"
| "jsSub (Number x) NegInfinity = PosInfinity"
| "jsSub PosInfinity (Number y) = PosInfinity"
| "jsSub NegInfinity (Number y) = NegInfinity"
| "jsSub PosInfinity PosInfinity = NaN"
| "jsSub PosInfinity NegInfinity = PosInfinity"
| "jsSub NegInfinity PosInfinity = NegInfinity"
| "jsSub NegInfinity NegInfinity = NaN"

fun jsDiv :: "jsnum \<Rightarrow> jsnum \<Rightarrow> jsnum" where
  "jsDiv NaN b = NaN"
| "jsDiv a NaN = NaN"
| "jsDiv (Number x) (Number y) =
     (if y \<noteq> 0 then Number (x / y)
      else if x > 0 then PosInfinity else if x < 0 then NegInfinity else NaN)"
| "jsDiv (Number x) PosInfinity = Number 0"
| "jsDiv (Number x) NegInfinity = Number 0"
| "jsDiv PosInfinity (Number y) = (if y \<ge> 0 then PosInfinity else NegInfinity)"
| "jsDiv NegInfinity (Number y) = (if y \<ge> 0 then NegInfinity else PosInfinity)"
| "jsDiv PosInfinity PosInfinity = NaN"
| "jsDiv PosInfinity NegInfinity = NaN"
| "jsDiv NegInfinity PosInfinity = NaN"
| "jsDiv NegInfinity NegInfinity = NaN"

fun isFinite :: "jsnum \<Rightarrow> bool" where
  "isFinite (Number x) = True"
| "isFinite PosInfinity = False"
| "isFinite NegInfinity = False"
| "isFinite NaN = False"

text \<open>\<^verbatim>\<open>Math.max\<close> and \<^verbatim>\<open>Math.min\<close> of two numbers: NaN as soon as one of them is NaN.\<close>

fun jsMax :: "jsnum \<Rightarrow> jsnum \<Rightarrow> jsnum" where
  "jsMax NaN b = NaN"
| "jsMax a NaN = NaN"
| "jsMax PosInfinity b = PosInfinity"
| "jsMax a PosInfinity = PosInfinity"
| "jsMax NegInfinity b = b"
| "jsMax a NegInfinity = a"
| "jsMax (Number x) (Number y) = Number (max x y)"

fun jsMin :: "jsnum \<Rightarrow> jsnum \<Rightarrow> jsnum" where
  "jsMin NaN b = NaN"
| "jsMin a NaN = NaN"
| "jsMin NegInfinity b = NegInfinity"
| "jsMin a NegInfinity = NegInfinity"
| "jsMin PosInfinity b = b"
| "jsMin a PosInfinity = a"
| "jsMin (Number x) (Number y) = Number (min x y)"

text \<open>
  The private field \<^verbatim>\<open>totalTrades\<close> of the sizer is \<open>sizerTotalTrades\<close> here, since
  the statistics record has a field of the same name. The balance, the statistics and
  the confidence come from outside and are finite; the two averages are computed by the
  sizer.
\<close>

record DynamicPositionSizer =
  accountBalance :: real
  sizerTotalTrades :: nat
  totalWins :: nat
  totalLosses :: nat
  avgWinPct :: jsnum
  avgLossPct :: jsnum

definition MAX_RISK_PER_TRADE :: real where "MAX_RISK_PER_TRADE = 0.10"
definition MIN_RISK_PER_TRADE :: real where "MIN_RISK_PER_TRADE = 0.01"
definition KELLY_FRACTION :: real where "KELLY_FRACTION = 0.25"
definition MIN_AI_CONFIDENCE :: real where "MIN_AI_CONFIDENCE = 50"
definition MAX_AI_CONFIDENCE :: real where "MAX_AI_CONFIDENCE = 95"

definition newSizer :: "real \<Rightarrow> DynamicPositionSizer" where
  "newSizer initialBalance =
     \<lparr>accountBalance = initialBalance, sizerTotalTrades = 0, totalWins = 0, totalLosses = 0,
      avgWinPct = Number 0.025, avgLossPct = Number 0.015\<rparr>"

definition updateBalance :: "DynamicPositionSizer \<Rightarrow> real \<Rightarrow> DynamicPositionSizer" where
  "updateBalance s newBalance =
     (if newBalance \<noteq> accountBalance s then s\<lparr>accountBalance := newBalance\<rparr> else s)"

definition updatePerformance :: "DynamicPositionSizer \<Rightarrow> PerformanceStats \<Rightarrow> DynamicPositionSizer" where
  "updatePerformance s stats =
     (let s1 = s\<lparr>sizerTotalTrades := totalTrades stats,
                 totalWins := winningTrades stats,
                 totalLosses := losingTrades stats\<rparr>
      in if sizerTotalTrades s1 > 0
         then s1\<lparr>avgWinPct := (if totalWins s1 > 0
                                then jsDiv (Number (totalProfit stats))
                                       (Number (real (totalWins s1) * accountBalance s1))
                                else Number 0.025),
                 avgLossPct := (if totalLosses s1 > 0
                                 then jsDiv (Number (totalLoss stats))
                                        (Number (real (totalLosses s1) * accountBalance s1))
                                 else Number 0.015)\<rparr>
         else s1)"

definition getWinRate :: "DynamicPositionSizer \<Rightarrow> real" where
  "getWinRate s =
     (if sizerTotalTrades s = 0 then 0.5
      else real (totalWins s) / real (sizerTotalTrades s))"

text \<open>
  \<open>kellyPct\<close> is the local of that name in \<^verbatim>\<open>calculateKellyFraction\<close>, the raw Kelly
  value before it is clamped. It divides by the average win.
\<close>

definition kellyPct :: "DynamicPositionSizer \<Rightarrow> jsnum" where
  "kellyPct s =
     (let winRate = getWinRate s;
          lossRate = 1 - winRate
      in jsDiv (jsSub (jsMul (Number winRate) (avgWinPct s))
                      (jsMul (Number lossRate) (avgLossPct s)))
               (avgWinPct s))"

definition calculateKellyFraction :: "DynamicPositionSizer \<Rightarrow> jsnum" where
  "calculateKellyFraction s =
     (if sizerTotalTrades s = 0 then Number 0.05
      else
        let safeFraction = jsMax (Number 0.01) (jsMin (Number 0.10) (kellyPct s));
            fractionalKelly = jsMul safeFraction (Number KELLY_FRACTION)
        in fractionalKelly)"

definition calculateRiskPerTrade :: "DynamicPositionSizer \<Rightarrow> real \<Rightarrow> jsnum" where
  "calculateRiskPerTrade s aiConf =
     (let kellyRisk = calculateKellyFraction s;
          confidenceNormalized =
            (aiConf - MIN_AI_CONFIDENCE) / (MAX_AI_CONFIDENCE - MIN_AI_CONFIDENCE);
          confidenceMultiplier = 0.5 + confidenceNormalized * 1.5;
          riskPerTrade = jsMul kellyRisk (Number confidenceMultiplier)
      in jsMax (Number MIN_RISK_PER_TRADE) (jsMin (Number MAX_RISK_PER_TRADE) riskPerTrade))"

section \<open>Configuration and market data (utils/types.ts)\<close>

text \<open>The fields of \<^verbatim>\<open>Config\<close> that the modelled code reads.\<close>

record Config =
  stopLossPct :: real
  btcDumpThreshold1h :: real
  volumeSpikeMax :: real
  spreadWideningPct :: real
  minADXForEntry :: real
  adxChoppyThreshold :: real
  adxStrongThreshold :: real
  pyramidErosionCapChoppy :: real
  pyramidErosionCapTrend :: real
  momentumFailureEnabled :: bool
  momentumFailureMinProfit :: real
  momentum1hFailureThreshold :: real
  momentum4hFailureThreshold :: real
  volumeExhaustionThreshold1h :: real
  volumeExhaustionThreshold4h :: real
  htfMomentumWeakening :: real
  priceNearPeakThreshold :: real
  momentumFailureRequiredSignals :: real
  aiMinConfidence :: real
  aiMaxCallsPerHour :: real
  exchangeFeePct :: real
  minProfitMultiplier :: real
  minRiskRewardRatio :: real

text \<open>The nested \<^verbatim>\<open>macd\<close> object is flattened into three fields.\<close>

record Indicators =
  rsi :: real
  macdLine :: real
  macdSignal :: real
  macdHistogram :: real
  adx :: real
  volumeRatio :: real
  momentum1h :: real
  momentum4h :: real
  recentHigh :: real
  recentLow :: real
  ema200 :: real

text \<open>
  Market data as the detector reads it. \<^verbatim>\<open>pair\<close> and \<^verbatim>\<open>volume\<close> are \<open>marketPair\<close>
  and \<open>marketVolume\<close> here; the candle list is read by no modelled function and is
  left out.
\<close>

record MarketData =
  marketPair :: string
  currentPrice :: real
  bid :: real
  ask :: real
  marketVolume :: real
  indicators :: Indicators

section \<open>Entry gate pipeline (RiskManager.ts)\<close>

text \<open>
  \<^verbatim>\<open>reason\<close> is a formatted message in the source. The model keeps which message it
  is and the numbers that are printed into it, not the formatting.
\<close>

datatype rejection =
  AIRateLimitExceeded nat real
| ChoppyMarket real real
| BTCDumping real
| VolumePanicSpike real
| SpreadWidening real
| PriceAtLocalTop real real
| RSIExtremeOverbought real
| WeakMomentum real real
| AIConfidenceTooLow real real
| ProfitBelowCostFloor real real
| RiskRewardBelowMinimum real real
| NoNetEdge real

record RiskFilterResult =
  pass :: bool
  reason :: "rejection option"
  stage :: nat

record CostAnalysis =
  feePct :: real
  spreadPct :: real
  slippagePct :: real
  totalCostsPct :: real
  profitTargetPct :: real
  netEdgePct :: real
  costFloorPct :: real
  passesCostFloor :: bool
  riskRewardRatio :: real
  passesRiskRewardRatio :: bool

record RiskManager =
  config :: Config
  btcMomentum1h :: real
  aiCallsLastHour :: nat
  lastAICallReset :: nat

definition updateBTCMomentum :: "RiskManager \<Rightarrow> real \<Rightarrow> RiskManager" where
  "updateBTCMomentum rm momentum = rm\<lparr>btcMomentum1h := momentum\<rparr>"

definition getRegime :: "RiskManager \<Rightarrow> real \<Rightarrow> regime" where
  "getRegime rm a =
     (if a < adxChoppyThreshold (config rm) then choppy
      else if a < 30 then weak
      else if a < adxStrongThreshold (config rm) then moderate
      else strong)"

definition isChoppyMarket :: "RiskManager \<Rightarrow> real \<Rightarrow> bool" where
  "isChoppyMarket rm a = (a < minADXForEntry (config rm))"

definition getErosionCap :: "RiskManager \<Rightarrow> regime \<Rightarrow> real" where
  "getErosionCap rm rg =
     (if rg = choppy then pyramidErosionCapChoppy (config rm)
      else pyramidErosionCapTrend (config rm))"

definition checkHealthGate :: "RiskManager \<Rightarrow> real option \<Rightarrow> RiskFilterResult" where
  "checkHealthGate rm a =
     (if real (aiCallsLastHour rm) \<ge> aiMaxCallsPerHour (config rm)
      then \<lparr>pass = False,
            reason = Some (AIRateLimitExceeded (aiCallsLastHour rm) (aiMaxCallsPerHour (config rm))),
            stage = 1\<rparr>
      else
        case a of
          None \<Rightarrow> \<lparr>pass = True, reason = None, stage = 1\<rparr>
        | Some v \<Rightarrow>
            if isChoppyMarket rm v
            then \<lparr>pass = False,
                  reason = Some (ChoppyMarket v (minADXForEntry (config rm))),
                  stage = 1\<rparr>
            else \<lparr>pass = True, reason = None, stage = 1\<rparr>)"

text \<open>The ticker argument is the spread of the ticker, or \<open>None\<close> for \<^verbatim>\<open>null\<close>.\<close>

definition checkDropProtection ::
  "RiskManager \<Rightarrow> string \<Rightarrow> real option \<Rightarrow> Indicators \<Rightarrow> RiskFilterResult" where
  "checkDropProtection rm pr ticker ind =
     (if pr \<noteq> ''BTC/USD'' \<and> btcMomentum1h rm < btcDumpThreshold1h (config rm)
      then \<lparr>pass = False, reason = Some (BTCDumping (btcMomentum1h rm * 100)), stage = 2\<rparr>
      else if volumeRatio ind > volumeSpikeMax (config rm)
      then \<lparr>pass = False, reason = Some (VolumePanicSpike (volumeRatio ind)), stage = 2\<rparr>
      else
        case ticker of
          None \<Rightarrow> \<lparr>pass = True, reason = None, stage = 2\<rparr>
        | Some spread \<Rightarrow>
            if spread > 0 \<and> spread / 90000 > spreadWideningPct (config rm)
            then \<lparr>pass = False, reason = Some (SpreadWidening (spread / 90000 * 100)), stage = 2\<rparr>
            else \<lparr>pass = True, reason = None, stage = 2\<rparr>)"

definition checkEntryQuality :: "real \<Rightarrow> Indicators \<Rightarrow> RiskFilterResult" where
  "checkEntryQuality price ind =
     (if price > recentHigh ind * 0.995
      then \<lparr>pass = False, reason = Some (PriceAtLocalTop price (recentHigh ind)), stage = 3\<rparr>
      else if rsi ind > 85
      then \<lparr>pass = False, reason = Some (RSIExtremeOverbought (rsi ind)), stage = 3\<rparr>
      else
        let has1hMomentum = momentum1h ind > 0.005;
            hasBothPositive = (momentum1h ind > 0.005 \<and> momentum4h ind > 0.005);
            hasVolumeBreakout = (volumeRatio ind > 1.3 \<and> momentum1h ind > 0);
            passesEntryGate = (has1hMomentum \<or> hasBothPositive \<or> hasVolumeBreakout)
        in if \<not> passesEntryGate
           then \<lparr>pass = False, reason = Some (WeakMomentum (momentum1h ind) (momentum4h ind)),
                 stage = 3\<rparr>
           else \<lparr>pass = True, reason = None, stage = 3\<rparr>)"

definition checkAIValidation :: "RiskManager \<Rightarrow> real \<Rightarrow> RiskFilterResult" where
  "checkAIValidation rm conf =
     (if conf < aiMinConfidence (config rm)
      then \<lparr>pass = False,
            reason = Some (AIConfidenceTooLow conf (aiMinConfidence (config rm))),
            stage = 4\<rparr>
      else \<lparr>pass = True, reason = None, stage = 4\<rparr>)"

text \<open>
  The price and volume arguments of \<^verbatim>\<open>calculateCosts\<close> are unused in the source
  (\<^verbatim>\<open>_price\<close>, \<^verbatim>\<open>_volume\<close>) and are kept as arguments here. The risk-reward
  ratio divides by the configured \<^verbatim>\<open>stopLossPct\<close>.
\<close>

definition calculateCosts :: "RiskManager \<Rightarrow> string \<Rightarrow> real \<Rightarrow> real \<Rightarrow> real \<Rightarrow> CostAnalysis" where
  "calculateCosts rm pr unusedPrice unusedVolume target =
     (let fee = exchangeFeePct (config rm) * 2;
          spread = (if pr = ''BTC/USD'' \<or> pr = ''ETH/USD'' then 0.0003 else 0.0005);
          slippage = 0.0001;
          totalCosts = fee + spread + slippage;
          costFloor = totalCosts * minProfitMultiplier (config rm);
          ratio = target / stopLossPct (config rm)
      in \<lparr>feePct = fee, spreadPct = spread, slippagePct = slippage,
          totalCostsPct = totalCosts, profitTargetPct = target,
          netEdgePct = target - totalCosts, costFloorPct = costFloor,
          passesCostFloor = (target \<ge> costFloor),
          riskRewardRatio = ratio,
          passesRiskRewardRatio = (ratio \<ge> minRiskRewardRatio (config rm))\<rparr>)"

definition checkCostFloor :: "RiskManager \<Rightarrow> CostAnalysis \<Rightarrow> RiskFilterResult" where
  "checkCostFloor rm costs =
     (if \<not> passesCostFloor costs
      then \<lparr>pass = False,
            reason = Some (ProfitBelowCostFloor (profitTargetPct costs * 100) (costFloorPct costs * 100)),
            stage = 5\<rparr>
      else if \<not> passesRiskRewardRatio costs
      then \<lparr>pass = False,
            reason = Some (RiskRewardBelowMinimum (riskRewardRatio costs)
                             (minRiskRewardRatio (config rm))),
            stage = 5\<rparr>
      else if netEdgePct costs \<le> 0
      then \<lparr>pass = False, reason = Some (NoNetEdge (netEdgePct costs * 100)), stage = 5\<rparr>
      else \<lparr>pass = True, reason = None, stage = 5\<rparr>)"

text \<open>
  The pipeline. Stage 4 is run by the caller, as the source says, so the pipeline goes
  from stage 3 to stage 5.
\<close>

definition runFullRiskFilter ::
  "RiskManager \<Rightarrow> string \<Rightarrow> real \<Rightarrow> Indicators \<Rightarrow> real option \<Rightarrow> real \<Rightarrow> RiskFilterResult" where
  "runFullRiskFilter rm pr price ind ticker target =
     (let health = checkHealthGate rm (Some (adx ind))
      in if \<not> pass health then health
         else
           let drop = checkDropProtection rm pr ticker ind
           in if \<not> pass drop then drop
              else
                let quality = checkEntryQuality price ind
                in if \<not> pass quality then quality
                   else
                     let costs = calculateCosts rm pr price 0 target;
                         costCheck = checkCostFloor rm costs
                     in if \<not> pass costCheck then costCheck
                        else \<lparr>pass = True, reason = None, stage = 5\<rparr>)"

section \<open>Momentum failure detector (index.ts)\<close>

text \<open>
  An entry of the reasoning trail: which message was pushed. The numbers formatted
  into the message are not kept. The field \<^verbatim>\<open>reasoning\<close> of the result is
  \<open>exitReasoning\<close> here and the nested \<^verbatim>\<open>signals\<close> object is flattened.
\<close>

datatype trail_entry =
  PriceActionFailureNote
| StrongReversalNote
| VolumeExhaustionNote
| MomentumWeakeningNote
| EMA200BreakdownNote
| ExitTriggeredNote

record MomentumFailureResult =
  shouldExit :: bool
  priceActionFailure :: bool
  volumeExhaustion :: bool
  htfBreakdown :: bool
  signalCount :: nat
  exitReasoning :: "trail_entry list"

definition detectMomentumFailure :: "Config \<Rightarrow> MarketData \<Rightarrow> Position \<Rightarrow> MomentumFailureResult" where
  "detectMomentumFailure cfg marketData position =
     (let ind = indicators marketData;
          price = currentPrice marketData;
          profit = profitPct position / 100;
          result = \<lparr>shouldExit = False, priceActionFailure = False, volumeExhaustion = False,
                    htfBreakdown = False, signalCount = 0, exitReasoning = []\<rparr>
      in if \<not> momentumFailureEnabled cfg then result
         else if profit < momentumFailureMinProfit cfg then result
         else
           let use4hThresholds = (pyramidLevelsActivated position \<ge> 1);
               momentumThreshold = (if use4hThresholds then momentum4hFailureThreshold cfg
                                    else momentum1hFailureThreshold cfg);
               volumeThreshold = (if use4hThresholds then volumeExhaustionThreshold4h cfg
                                  else volumeExhaustionThreshold1h cfg);
               priceNearPeak = price / recentHigh ind;
               momentum1hNegative = (momentum1h ind < momentumThreshold * 100);
               r1 = (if priceNearPeak \<ge> priceNearPeakThreshold cfg \<and> momentum1hNegative
                     then result\<lparr>priceActionFailure := True,
                                 signalCount := signalCount result + 1,
                                 exitReasoning := exitReasoning result @ [PriceActionFailureNote]\<rparr>
                     else if momentum1h ind < momentumThreshold * 100
                     then result\<lparr>priceActionFailure := True,
                                 signalCount := signalCount result + 1,
                                 exitReasoning := exitReasoning result @ [StrongReversalNote]\<rparr>
                     else result);
               r2 = (if volumeRatio ind < volumeThreshold
                     then r1\<lparr>volumeExhaustion := True,
                             signalCount := signalCount r1 + 1,
                             exitReasoning := exitReasoning r1 @ [VolumeExhaustionNote]\<rparr>
                     else r1);
               htfMomentumWeak = (momentum4h ind < htfMomentumWeakening cfg * 100);
               belowEMA200 = (price < ema200 ind);
               r3 = (if htfMomentumWeak
                     then r2\<lparr>htfBreakdown := True,
                             signalCount := signalCount r2 + 1,
                             exitReasoning := exitReasoning r2 @ [MomentumWeakeningNote]\<rparr>
                     else if belowEMA200 \<and> ema200 ind > 0
                     then r2\<lparr>htfBreakdown := True,
                             signalCount := signalCount r2 + 1,
                             exitReasoning := exitReasoning r2 @ [EMA200BreakdownNote]\<rparr>
                     else r2);
               r4 = r3\<lparr>shouldExit := (real (signalCount r3) \<ge> momentumFailureRequiredSignals cfg)\<rparr>
           in if shouldExit r4
              then r4\<lparr>exitReasoning := exitReasoning r4 @ [ExitTriggeredNote]\<rparr>
              else r4)"

section \<open>Example data\<close>

text \<open>
  The state of a tracker after its constructor, given the closed history that was read
  from disk, and the position of the scenario in the specification: entry at 50000 with
  volume 0.1, stop at 47500, target at 55000, erosion cap 0.008.
\<close>

definition newTracker :: "Position list \<Rightarrow> PositionTracker" where
  "newTracker loaded = \<lparr>positions = Map.empty, closedPositions = loaded\<rparr>"

definition exampleDecision :: AIDecision where
  "exampleDecision = \<lparr>decision = BUY, confidence = 85, reasoning = []\<rparr>"

definition exampleOpen :: PositionTracker where
  "exampleOpen =
     addPosition (newTracker []) ''BTC/USD'' 50000 0.1 47500 55000 exampleDecision 25 moderate
       0.008 0"

text \<open>
  The scenario continued: the price rises to 52250 and level 1 is added there with
  volume 0.02.
\<close>

definition exampleL1 :: PositionTracker where
  "exampleL1 =
     snd (addPyramidLevel (updatePosition exampleOpen ''BTC/USD'' 52250) ''BTC/USD'' 1 52250 0.02
            85 1)"

text \<open>
  The configuration with the default values of \<^verbatim>\<open>config.ts\<close>, a risk manager that has
  made no validation call yet, and an indicator snapshot of a choppy market (ADX 15)
  whose price sits at the recent high.
\<close>

definition defaultConfig :: Config where
  "defaultConfig =
     \<lparr>stopLossPct = 0.05,
      btcDumpThreshold1h = - 0.015, volumeSpikeMax = 3.0, spreadWideningPct = 0.005,
      minADXForEntry = 20, adxChoppyThreshold = 20, adxStrongThreshold = 35,
      pyramidErosionCapChoppy = 0.006, pyramidErosionCapTrend = 0.008,
      momentumFailureEnabled = True, momentumFailureMinProfit = 0.02,
      momentum1hFailureThreshold = - 0.003, momentum4hFailureThreshold = - 0.005,
      volumeExhaustionThreshold1h = 0.9, volumeExhaustionThreshold4h = 1.0,
      htfMomentumWeakening = 0.005, priceNearPeakThreshold = 0.98,
      momentumFailureRequiredSignals = 2,
      aiMinConfidence = 70, aiMaxCallsPerHour = 300,
      exchangeFeePct = 0.002, minProfitMultiplier = 3.0, minRiskRewardRatio = 2.0\<rparr>"

definition exampleManager :: RiskManager where
  "exampleManager =
     \<lparr>config = defaultConfig, btcMomentum1h = 0, aiCallsLastHour = 0, lastAICallReset = 0\<rparr>"

definition choppyAtTop :: Indicators where
  "choppyAtTop =
     \<lparr>rsi = 60, macdLine = 0, macdSignal = 0, macdHistogram = 0, adx = 15,
      volumeRatio = 1.0, momentum1h = 0.5, momentum4h = 1.0,
      recentHigh = 3000, recentLow = 2900, ema200 = 2800\<rparr>"

text \<open>
  Market data of the reversal scenario of the detector's tests, and a position that is
  3 percent in profit with no pyramid level.
\<close>

definition reversalData :: MarketData where
  "reversalData =
     \<lparr>marketPair = ''BTC/USD'', currentPrice = 51400, bid = 51395, ask = 51405,
      marketVolume = 50,
      indicators =
        \<lparr>rsi = 70, macdLine = 0, macdSignal = 0, macdHistogram = 0, adx = 22,
         volumeRatio = 0.8, momentum1h = - 0.35, momentum4h = 0.3,
         recentHigh = 51500, recentLow = 50000, ema200 = 50500\<rparr>\<rparr>"

definition profitablePosition :: Position where
  "profitablePosition =
     \<lparr>pair = ''BTC/USD'', entryPrice = 50000, volume = 0.1, entryTime = 0,
      stopLoss = 47500, profitTarget = 55000,
      pyramidLevels = [], totalVolume = 0.1, pyramidLevelsActivated = 0,
      currentProfit = 150, profitPct = 3.0, peakProfit = 150,
      erosionCap = 0.008, erosionUsed = 0,
      aiReasoning = [], entryADX = 25, regime = moderate,
      status = status_open,
      exitPrice = None, exitTime = None, exitReason = None\<rparr>"

section \<open>Lemmas about the ledger\<close>

lemma sumLevels_eq:
  "sumLevels c ls (a, b) =
     (a + (\<Sum>l\<leftarrow>ls. (c - levelEntryPrice l) * levelVolume l),
      b + (\<Sum>l\<leftarrow>ls. levelEntryPrice l * levelVolume l))"
  by (induction ls arbitrary: a b) (simp_all add: algebra_simps)

lemma trackPeak_fields:
  "pyramidLevels (trackPeak p) = pyramidLevels p"
  "totalVolume (trackPeak p) = totalVolume p"
  "pyramidLevelsActivated (trackPeak p) = pyramidLevelsActivated p"
  "volume (trackPeak p) = volume p"
  "entryPrice (trackPeak p) = entryPrice p"
  "currentProfit (trackPeak p) = currentProfit p"
  "erosionCap (trackPeak p) = erosionCap p"
  by (simp_all add: trackPeak_def)

lemma trackPeak_peak: "peakProfit (trackPeak p) = max (peakProfit p) (currentProfit p)"
  by (simp add: trackPeak_def)

lemma trackPeak_erosion:
  "erosionUsed (trackPeak p) = peakProfit (trackPeak p) - currentProfit p"
  by (simp add: trackPeak_def)

lemma revalue_fields:
  "pyramidLevels (revalue p c) = pyramidLevels p"
  "totalVolume (revalue p c) = totalVolume p"
  "pyramidLevelsActivated (revalue p c) = pyramidLevelsActivated p"
  "volume (revalue p c) = volume p"
  "entryPrice (revalue p c) = entryPrice p"
  "erosionCap (revalue p c) = erosionCap p"
  by (simp_all add: revalue_def Let_def trackPeak_fields split: prod.splits)

lemma revalue_currentProfit:
  "currentProfit (revalue p c) =
     (c - entryPrice p) * volume p
       + (\<Sum>l\<leftarrow>pyramidLevels p. (c - levelEntryPrice l) * levelVolume l)"
  by (simp add: revalue_def Let_def sumLevels_eq trackPeak_fields)

lemma revalue_peak:
  "peakProfit (revalue p c) = max (peakProfit p) (currentProfit (revalue p c))"
  by (simp add: revalue_def Let_def trackPeak_peak trackPeak_fields split: prod.splits)

lemma revalue_erosion:
  "erosionUsed (revalue p c) = peakProfit (revalue p c) - currentProfit (revalue p c)"
  by (simp add: revalue_def Let_def trackPeak_erosion trackPeak_fields split: prod.splits)

lemma updatePosition_Some:
  "positions t pr = Some p \<Longrightarrow> positions (updatePosition t pr c) pr = Some (revalue p c)"
  by (simp add: updatePosition_def)

lemma addPyramidLevel_Some:
  assumes "positions t pr = Some p"
  shows "addPyramidLevel t pr lv entry vol conf now =
     (if 2 \<le> pyramidLevelsActivated p \<or> list_ex (\<lambda>l. level l = lv) (pyramidLevels p)
      then (False, t)
      else (True, t\<lparr>positions := (positions t)(pr \<mapsto> withLevel p lv entry vol conf now)\<rparr>))"
  using assms by (simp add: addPyramidLevel_def)

lemma call_Some:
  assumes "positions t pr = Some p"
  shows "positions (call t pr c) pr =
     Some (case c of
             Update price \<Rightarrow> revalue p price
           | AddLevel lv entry vol conf now \<Rightarrow>
               if 2 \<le> pyramidLevelsActivated p \<or> list_ex (\<lambda>l. level l = lv) (pyramidLevels p)
               then p else withLevel p lv entry vol conf now)"
  using assms by (cases c) (simp_all add: updatePosition_Some addPyramidLevel_Some)

lemma calls_invariant:
  assumes "positions t pr = Some p" and "P p"
    and upd: "\<And>q price. P q \<Longrightarrow> P (revalue q price)"
    and add: "\<And>q lv entry vol conf now.
               P q \<Longrightarrow> pyramidLevelsActivated q < 2 \<Longrightarrow>
               \<not> list_ex (\<lambda>l. level l = lv) (pyramidLevels q) \<Longrightarrow>
               P (withLevel q lv entry vol conf now)"
  shows "\<exists>p'. positions (calls t pr cs) pr = Some p' \<and> P p'"
  using assms(1,2)
proof (induction cs arbitrary: t p)
  case Nil
  then show ?case by simp
next
  case (Cons c cs)
  let ?q = "case c of
             Update price \<Rightarrow> revalue p price
           | AddLevel lv entry vol conf now \<Rightarrow>
               if 2 \<le> pyramidLevelsActivated p \<or> list_ex (\<lambda>l. level l = lv) (pyramidLevels p)
               then p else withLevel p lv entry vol conf now"
  have step: "positions (call t pr c) pr = Some ?q"
    using Cons.prems(1) by (rule call_Some)
  have "P ?q"
    using Cons.prems(2) by (cases c) (auto intro: upd add)
  from Cons.IH [OF step this] show ?case by simp
qed

lemma withLevel_fields:
  "pyramidLevels (withLevel p lv entry vol conf now) =
     pyramidLevels p @
       [\<lparr>level = lv, levelEntryPrice = entry, levelVolume = vol, levelEntryTime = now,
         triggerProfitPct = (if lv = 1 then 0.045 else 0.08), aiConfidence = conf,
         levelStatus = level_active\<rparr>]"
  "totalVolume (withLevel p lv entry vol conf now) = totalVolume p + vol"
  "pyramidLevelsActivated (withLevel p lv entry vol conf now) = pyramidLevelsActivated p + 1"
  "volume (withLevel p lv entry vol conf now) = volume p"
  "entryPrice (withLevel p lv entry vol conf now) = entryPrice p"
  "currentProfit (withLevel p lv entry vol conf now) = currentProfit p"
  "peakProfit (withLevel p lv entry vol conf now) = peakProfit p"
  "erosionUsed (withLevel p lv entry vol conf now) = erosionUsed p"
  "erosionCap (withLevel p lv entry vol conf now) = erosionCap p"
  by (simp_all add: withLevel_def Let_def)

lemma exampleOpen_position:
  "positions exampleOpen ''BTC/USD'' =
     Some \<lparr>pair = ''BTC/USD'', entryPrice = 50000, volume = 0.1, entryTime = 0,
           stopLoss = 47500, profitTarget = 55000,
           pyramidLevels = [], totalVolume = 0.1, pyramidLevelsActivated = 0,
           currentProfit = 0, profitPct = 0, peakProfit = 0,
           erosionCap = 0.008, erosionUsed = 0,
           aiReasoning = [], entryADX = 25, regime = moderate,
           status = status_open,
           exitPrice = None, exitTime = None, exitReason = None\<rparr>"
  by (simp add: exampleOpen_def addPosition_def newTracker_def exampleDecision_def)

lemma exampleL1_position:
  "positions exampleL1 ''BTC/USD'' =
     Some \<lparr>pair = ''BTC/USD'', entryPrice = 50000, volume = 0.1, entryTime = 0,
           stopLoss = 47500, profitTarget = 55000,
           pyramidLevels =
             [\<lparr>level = 1, levelEntryPrice = 52250, levelVolume = 0.02, levelEntryTime = 1,
               triggerProfitPct = 0.045, aiConfidence = 85, levelStatus = level_active\<rparr>],
           totalVolume = 0.12, pyramidLevelsActivated = 1,
           currentProfit = 225, profitPct = 4.5, peakProfit = 225,
           erosionCap = 0.008, erosionUsed = 0,
           aiReasoning = [], entryADX = 25, regime = moderate,
           status = status_open,
           exitPrice = None, exitTime = None, exitReason = None\<rparr>"
  by (simp add: exampleL1_def addPyramidLevel_def updatePosition_def exampleOpen_position
      revalue_def trackPeak_def withLevel_def Let_def)

section \<open>The erosion cap check\<close>

lemma checkErosionCap_pyramided:
  assumes "positions t pr = Some p" and "pyramidLevelsActivated p \<noteq> 0"
  shows "checkErosionCap t pr \<longleftrightarrow> erosionUsed p > erosionCap p"
  using assms by (simp add: checkErosionCap_def)

text \<open>
  Claim C1 says that checkErosionCap is true exactly when erosionUsed exceeds erosionCap,
  for every open position, pyramided or not. The code returns false for every position
  without an activated pyramid level. In the scenario position, after the price went to
  52000 and fell back to 51000, erosionUsed is 100 and erosionCap is 0.008, no pyramid
  level is activated, and checkErosionCap returns false.
\<close>

theorem erosion_cap_skips_unpyramided_position:
  "map_option pyramidLevelsActivated
     (positions (updatePosition (updatePosition exampleOpen ''BTC/USD'' 52000) ''BTC/USD'' 51000)
        ''BTC/USD'') = Some 0
   \<and> map_option erosionUsed
     (positions (updatePosition (updatePosition exampleOpen ''BTC/USD'' 52000) ''BTC/USD'' 51000)
        ''BTC/USD'') = Some 100
   \<and> map_option erosionCap
     (positions (updatePosition (updatePosition exampleOpen ''BTC/USD'' 52000) ''BTC/USD'' 51000)
        ''BTC/USD'') = Some 0.008
   \<and> checkErosionCap
     (updatePosition (updatePosition exampleOpen ''BTC/USD'' 52000) ''BTC/USD'' 51000)
     ''BTC/USD'' = False"
  by (simp add: updatePosition_def exampleOpen_position checkErosionCap_def revalue_fields
      revalue_erosion revalue_peak revalue_currentProfit)

section \<open>Adding pyramid levels\<close>

text \<open>
  Claim C2, as stated, says that adding level 2 fails while level 1 is absent. The code
  does not look at the order of levels: on the scenario position, which has no level,
  adding level 2 returns true and records it.
\<close>

theorem addPyramidLevel_accepts_level2_without_level1:
  "map_option pyramidLevels (positions exampleOpen ''BTC/USD'') = Some []
   \<and> fst (addPyramidLevel exampleOpen ''BTC/USD'' 2 54000 0.05 90 1) = True
   \<and> map_option (map level \<circ> pyramidLevels)
        (positions (snd (addPyramidLevel exampleOpen ''BTC/USD'' 2 54000 0.05 90 1)) ''BTC/USD'')
       = Some [2]
   \<and> map_option pyramidLevelsActivated
        (positions (snd (addPyramidLevel exampleOpen ''BTC/USD'' 2 54000 0.05 90 1)) ''BTC/USD'')
       = Some 1
   \<and> map_option totalVolume
        (positions (snd (addPyramidLevel exampleOpen ''BTC/USD'' 2 54000 0.05 90 1)) ''BTC/USD'')
       = Some 0.15"
  by (simp add: addPyramidLevel_def exampleOpen_position withLevel_fields)

text \<open>
  Claim C2, amended. On an open position, addPyramidLevel returns false and leaves the
  whole tracker unchanged whenever the position already has 2 activated levels or the
  requested level already exists. In every other case, whatever the order of the
  levels, it returns true, appends the level, adds its volume to totalVolume and
  increments the count of activated levels.
\<close>

theorem addPyramidLevel_rejects_duplicate_or_third_level:
  assumes "positions t pr = Some p"
  shows "((2 \<le> pyramidLevelsActivated p \<or> lv \<in> level ` set (pyramidLevels p))
            \<longrightarrow> addPyramidLevel t pr lv entry vol conf now = (False, t))
       \<and> (\<not> (2 \<le> pyramidLevelsActivated p \<or> lv \<in> level ` set (pyramidLevels p))
            \<longrightarrow> (\<exists>p'. addPyramidLevel t pr lv entry vol conf now
                         = (True, t\<lparr>positions := (positions t)(pr \<mapsto> p')\<rparr>)
                   \<and> pyramidLevels p' = pyramidLevels p @
                        [\<lparr>level = lv, levelEntryPrice = entry, levelVolume = vol,
                          levelEntryTime = now,
                          triggerProfitPct = (if lv = 1 then 0.045 else 0.08),
                          aiConfidence = conf, levelStatus = level_active\<rparr>]
                   \<and> totalVolume p' = totalVolume p + vol
                   \<and> pyramidLevelsActivated p' = pyramidLevelsActivated p + 1))"
proof -
  have ex: "list_ex (\<lambda>l. level l = lv) (pyramidLevels p) \<longleftrightarrow> lv \<in> level ` set (pyramidLevels p)"
    by (auto simp: list_ex_iff)
  show ?thesis
    using assms by (auto simp: addPyramidLevel_def ex withLevel_fields)
qed

theorem addPyramidLevel_rejects_duplicate_or_third_level_witness:
  "positions exampleOpen ''BTC/USD'' \<noteq> None
   \<and> fst (addPyramidLevel exampleOpen ''BTC/USD'' 1 52250 0.02 85 1) = True
   \<and> positions exampleL1 ''BTC/USD'' \<noteq> None
   \<and> addPyramidLevel exampleL1 ''BTC/USD'' 1 53000 0.02 85 2 = (False, exampleL1)"
  using addPyramidLevel_rejects_duplicate_or_third_level
          [OF exampleOpen_position, of 1 52250 "0.02" 85 1]
        addPyramidLevel_rejects_duplicate_or_third_level
          [OF exampleL1_position, of 1 53000 "0.02" 85 2]
  by (auto simp: exampleOpen_position exampleL1_position)

section \<open>Profit recorded at close\<close>

lemma settle_currentProfit:
  assumes "entryPrice p \<noteq> 0"
  shows "currentProfit (settle p exit why now) = volume p * (exit - entryPrice p)"
  using assms by (simp add: settle_def Let_def)

lemma closePosition_Some:
  assumes "positions t pr = Some p"
  shows "closedPositions (closePosition t pr exit why now) =
           closedPositions t @ [settle p exit why now]"
    and "positions (closePosition t pr exit why now) pr = None"
  using assms by (simp_all add: closePosition_def)

lemma close_vs_update_profit_gap:
  assumes "entryPrice p \<noteq> 0"
  shows "currentProfit (revalue p exit) - currentProfit (settle p exit why now) =
           (\<Sum>l\<leftarrow>pyramidLevels p. (exit - levelEntryPrice l) * levelVolume l)"
  using assms by (simp add: revalue_currentProfit settle_currentProfit algebra_simps)

text \<open>
  Claim C3. When closePosition closes a position that has at least one pyramid level,
  the profit it records is that of the initial leg alone,
  volume \<times> (exitPrice - entryPrice); and there is such a position, with a level
  entered at another price than the initial leg, for which this recorded profit differs
  from the profit over all legs that updatePosition computes at the same price. The
  source computes the initial-leg profit through the quotient
  (exitPrice - entryPrice) / entryPrice, so the entry price is taken to be nonzero.
\<close>

theorem close_records_initial_leg_profit_only:
  assumes "positions t pr = Some p" and "pyramidLevels p \<noteq> []" and "entryPrice p \<noteq> 0"
  shows "(\<exists>c. closedPositions (closePosition t pr exit why now) = closedPositions t @ [c]
            \<and> currentProfit c = volume p * (exit - entryPrice p))
       \<and> (\<exists>t' pr' p' exit' why' now' c' u'.
              positions t' pr' = Some p' \<and> pyramidLevels p' \<noteq> [] \<and> entryPrice p' \<noteq> 0
            \<and> (\<exists>l \<in> set (pyramidLevels p'). levelEntryPrice l \<noteq> entryPrice p')
            \<and> closedPositions (closePosition t' pr' exit' why' now') = closedPositions t' @ [c']
            \<and> positions (updatePosition t' pr' exit') pr' = Some u'
            \<and> currentProfit c' \<noteq> currentProfit u')"
proof (rule conjI)
  show "\<exists>c. closedPositions (closePosition t pr exit why now) = closedPositions t @ [c]
           \<and> currentProfit c = volume p * (exit - entryPrice p)"
    using assms by (simp add: closePosition_Some settle_currentProfit)
next
  let ?p = "the (positions exampleL1 ''BTC/USD'')"
  have "positions exampleL1 ''BTC/USD'' = Some ?p \<and> pyramidLevels ?p \<noteq> [] \<and> entryPrice ?p \<noteq> 0
        \<and> (\<exists>l \<in> set (pyramidLevels ?p). levelEntryPrice l \<noteq> entryPrice ?p)
        \<and> closedPositions (closePosition exampleL1 ''BTC/USD'' 53000 ''Profit Target'' 2)
            = closedPositions exampleL1 @ [settle ?p 53000 ''Profit Target'' 2]
        \<and> positions (updatePosition exampleL1 ''BTC/USD'' 53000) ''BTC/USD''
            = Some (revalue ?p 53000)
        \<and> currentProfit (settle ?p 53000 ''Profit Target'' 2) \<noteq> currentProfit (revalue ?p 53000)"
    by (simp add: exampleL1_position closePosition_def updatePosition_def
        settle_def revalue_currentProfit)
  then show "\<exists>t' pr' p' exit' why' now' c' u'.
              positions t' pr' = Some p' \<and> pyramidLevels p' \<noteq> [] \<and> entryPrice p' \<noteq> 0
            \<and> (\<exists>l \<in> set (pyramidLevels p'). levelEntryPrice l \<noteq> entryPrice p')
            \<and> closedPositions (closePosition t' pr' exit' why' now') = closedPositions t' @ [c']
            \<and> positions (updatePosition t' pr' exit') pr' = Some u'
            \<and> currentProfit c' \<noteq> currentProfit u'"
    by blast
qed

theorem close_records_initial_leg_profit_only_witness:
  "positions exampleL1 ''BTC/USD'' \<noteq> None
   \<and> map currentProfit (closedPositions (closePosition exampleL1 ''BTC/USD'' 53000 ''Profit Target'' 2))
       = [300]
   \<and> map_option currentProfit (positions (updatePosition exampleL1 ''BTC/USD'' 53000) ''BTC/USD'')
       = Some 315"
proof -
  have "\<exists>c. closedPositions (closePosition exampleL1 ''BTC/USD'' 53000 ''Profit Target'' 2)
               = closedPositions exampleL1 @ [c]
           \<and> currentProfit c = 0.1 * (53000 - 50000)"
    using close_records_initial_leg_profit_only
            [OF exampleL1_position, of 53000 "''Profit Target''" 2]
    by simp
  moreover have "closedPositions exampleL1 = []"
    by (simp add: exampleL1_def addPyramidLevel_def updatePosition_def exampleOpen_position
        exampleOpen_def addPosition_def newTracker_def)
  ultimately show ?thesis
    by (auto simp: exampleL1_position updatePosition_def revalue_currentProfit)
qed

section \<open>Peak profit and erosion\<close>

text \<open>
  Claim C4. Take any open position \<open>p0\<close>, any sequence of calls \<open>cs\<close> on it (price
  updates, with pyramid adds between them) and one more update at any price. With \<open>p1\<close>
  the position before that update and \<open>p2\<close> the position after it: peakProfit never
  decreases (from \<open>p0\<close> to \<open>p1\<close> and from \<open>p1\<close> to \<open>p2\<close>); erosionUsed is not negative
  after the update, and stays non-negative through the calls if it was so at the start;
  erosionUsed is exactly 0 when the new currentProfit reaches or exceeds the previous
  peak; and otherwise the peak is unchanged and erosionUsed is peakProfit - currentProfit.
\<close>

theorem peak_and_erosion_after_update:
  assumes "positions t pr = Some p0"
  shows "\<exists>p1 p2.
           positions (calls t pr cs) pr = Some p1
         \<and> positions (updatePosition (calls t pr cs) pr price) pr = Some p2
         \<and> peakProfit p0 \<le> peakProfit p1
         \<and> peakProfit p1 \<le> peakProfit p2
         \<and> (0 \<le> erosionUsed p0 \<longrightarrow> 0 \<le> erosionUsed p1)
         \<and> 0 \<le> erosionUsed p2
         \<and> (peakProfit p1 \<le> currentProfit p2 \<longrightarrow> erosionUsed p2 = 0)
         \<and> (currentProfit p2 < peakProfit p1 \<longrightarrow>
               peakProfit p2 = peakProfit p1 \<and> erosionUsed p2 = peakProfit p2 - currentProfit p2)"
proof -
  let ?P = "\<lambda>q. peakProfit p0 \<le> peakProfit q \<and> (0 \<le> erosionUsed p0 \<longrightarrow> 0 \<le> erosionUsed q)"
  have "\<exists>p1. positions (calls t pr cs) pr = Some p1 \<and> ?P p1"
  proof (rule calls_invariant [OF assms])
    show "?P p0" by simp
  next
    fix q :: Position and c
    assume "?P q"
    then show "?P (revalue q c)"
      by (auto simp: revalue_peak revalue_erosion)
  next
    fix q :: Position and lv entry vol conf now
    assume "?P q"
    then show "?P (withLevel q lv entry vol conf now)"
      by (simp add: withLevel_fields)
  qed
  then obtain p1 where p1: "positions (calls t pr cs) pr = Some p1" and inv: "?P p1"
    by blast
  have p2: "positions (updatePosition (calls t pr cs) pr price) pr = Some (revalue p1 price)"
    using p1 by (rule updatePosition_Some)
  have "peakProfit p1 \<le> peakProfit (revalue p1 price)"
    and "0 \<le> erosionUsed (revalue p1 price)"
    and "peakProfit p1 \<le> currentProfit (revalue p1 price) \<longrightarrow> erosionUsed (revalue p1 price) = 0"
    and "currentProfit (revalue p1 price) < peakProfit p1 \<longrightarrow>
           peakProfit (revalue p1 price) = peakProfit p1
         \<and> erosionUsed (revalue p1 price)
             = peakProfit (revalue p1 price) - currentProfit (revalue p1 price)"
    by (auto simp: revalue_peak revalue_erosion)
  with p1 p2 inv show ?thesis by blast
qed

theorem peak_and_erosion_after_update_witness:
  "positions exampleOpen ''BTC/USD'' \<noteq> None
   \<and> (\<exists>p1 p2.
         positions (calls exampleOpen ''BTC/USD'' [Update 52250, AddLevel 1 52250 0.02 85 1])
           ''BTC/USD'' = Some p1
       \<and> positions
           (updatePosition
              (calls exampleOpen ''BTC/USD'' [Update 52250, AddLevel 1 52250 0.02 85 1])
              ''BTC/USD'' 51000) ''BTC/USD'' = Some p2
       \<and> peakProfit p1 \<le> peakProfit p2 \<and> 0 \<le> erosionUsed p2)"
  using peak_and_erosion_after_update
          [OF exampleOpen_position, of "[Update 52250, AddLevel 1 52250 0.02 85 1]" 51000]
  by (simp add: exampleOpen_position) blast

section \<open>Volume and level count\<close>

lemma addPosition_fresh:
  assumes "positions t pr = None"
  shows "positions (addPosition t pr entry vol stop target ai adx0 rg cap now) pr =
     Some \<lparr>pair = pr, entryPrice = entry, volume = vol, entryTime = now,
           stopLoss = stop, profitTarget = target,
           pyramidLevels = [], totalVolume = vol, pyramidLevelsActivated = 0,
           currentProfit = 0, profitPct = 0, peakProfit = 0,
           erosionCap = cap, erosionUsed = 0,
           aiReasoning = reasoning ai, entryADX = adx0, regime = rg,
           status = status_open,
           exitPrice = None, exitTime = None, exitReason = None\<rparr>"
  using assms by (simp add: addPosition_def)

text \<open>
  Claim C5. For a position created by addPosition and any sequence of addPyramidLevel
  and updatePosition calls on it (the rejected adds included, since they change
  nothing), totalVolume is the initial entry volume plus the sum of the volumes of all
  pyramid levels, pyramidLevelsActivated is the number of pyramid levels, and it never
  exceeds 2. The level numbers are moreover pairwise distinct.
\<close>

theorem volume_and_level_count_invariant:
  assumes "positions t pr = None"
  shows "\<exists>p. positions (calls (addPosition t pr entry vol stop target ai adx0 rg cap now) pr cs) pr
               = Some p
           \<and> volume p = vol
           \<and> totalVolume p = vol + (\<Sum>l\<leftarrow>pyramidLevels p. levelVolume l)
           \<and> pyramidLevelsActivated p = length (pyramidLevels p)
           \<and> pyramidLevelsActivated p \<le> 2
           \<and> distinct (map level (pyramidLevels p))"
proof -
  let ?P = "\<lambda>q. volume q = vol
           \<and> totalVolume q = vol + (\<Sum>l\<leftarrow>pyramidLevels q. levelVolume l)
           \<and> pyramidLevelsActivated q = length (pyramidLevels q)
           \<and> pyramidLevelsActivated q \<le> 2
           \<and> distinct (map level (pyramidLevels q))"
  show ?thesis
  proof (rule calls_invariant [OF addPosition_fresh [OF assms]])
    show "?P \<lparr>pair = pr, entryPrice = entry, volume = vol, entryTime = now,
           stopLoss = stop, profitTarget = target,
           pyramidLevels = [], totalVolume = vol, pyramidLevelsActivated = 0,
           currentProfit = 0, profitPct = 0, peakProfit = 0,
           erosionCap = cap, erosionUsed = 0,
           aiReasoning = reasoning ai, entryADX = adx0, regime = rg,
           status = status_open,
           exitPrice = None, exitTime = None, exitReason = None\<rparr>"
      by simp
  next
    fix q :: Position and c
    assume "?P q"
    then show "?P (revalue q c)"
      by (simp add: revalue_fields)
  next
    fix q :: Position and lv entry vol conf now
    assume "?P q" and "pyramidLevelsActivated q < 2"
      and "\<not> list_ex (\<lambda>l. level l = lv) (pyramidLevels q)"
    then show "?P (withLevel q lv entry vol conf now)"
      by (auto simp: withLevel_fields list_ex_iff)
  qed
qed

theorem volume_and_level_count_invariant_witness:
  "positions (newTracker []) ''BTC/USD'' = None
   \<and> (\<exists>p. positions (calls exampleOpen ''BTC/USD''
                        [Update 52250, AddLevel 1 52250 0.02 85 1, Update 54000,
                         AddLevel 2 54000 0.05 90 2, AddLevel 2 54500 0.05 90 3])
               ''BTC/USD'' = Some p
          \<and> totalVolume p = 0.1 + (\<Sum>l\<leftarrow>pyramidLevels p. levelVolume l)
          \<and> pyramidLevelsActivated p = length (pyramidLevels p)
          \<and> pyramidLevelsActivated p \<le> 2)"
proof -
  have fresh: "positions (newTracker []) ''BTC/USD'' = None"
    by (simp add: newTracker_def)
  show ?thesis
    using fresh
      volume_and_level_count_invariant
        [OF fresh, of 50000 "0.1" 47500 55000 exampleDecision 25 moderate "0.008" 0
           "[Update 52250, AddLevel 1 52250 0.02 85 1, Update 54000,
             AddLevel 2 54000 0.05 90 2, AddLevel 2 54500 0.05 90 3]"]
    unfolding exampleOpen_def by blast
qed

section \<open>Erosion of a position that was never profitable\<close>

lemma loss_run:
  assumes "positions t pr = Some p"
    and "peakProfit p = 0" and "erosionUsed p = - currentProfit p" and "currentProfit p \<le> 0"
    and "lossAtEveryUpdate t pr cs"
  shows "\<exists>p'. positions (calls t pr cs) pr = Some p'
            \<and> peakProfit p' = 0 \<and> erosionUsed p' = - currentProfit p' \<and> currentProfit p' \<le> 0
            \<and> (list_ex isUpdate cs \<or> currentProfit p < 0 \<longrightarrow> currentProfit p' < 0)"
  using assms
proof (induction cs arbitrary: t p)
  case Nil
  then show ?case by simp
next
  case (Cons c cs)
  show ?case
  proof (cases c)
    case (Update price)
    let ?q = "revalue p price"
    have q: "positions (updatePosition t pr price) pr = Some ?q"
      using Cons.prems(1) by (rule updatePosition_Some)
    have neg: "currentProfit ?q < 0" and rest: "lossAtEveryUpdate (updatePosition t pr price) pr cs"
      using Cons.prems(5) q by (simp_all add: Update)
    have "peakProfit ?q = 0" "erosionUsed ?q = - currentProfit ?q" "currentProfit ?q \<le> 0"
      using neg Cons.prems(2) by (simp_all add: revalue_peak revalue_erosion)
    from Cons.IH [OF q this rest] neg show ?thesis
      by (auto simp: Update)
  next
    case (AddLevel lv entry vol conf now)
    let ?q = "if 2 \<le> pyramidLevelsActivated p \<or> list_ex (\<lambda>l. level l = lv) (pyramidLevels p)
              then p else withLevel p lv entry vol conf now"
    have q: "positions (call t pr c) pr = Some ?q"
      using call_Some [OF Cons.prems(1), of c] by (simp add: AddLevel)
    have rest: "lossAtEveryUpdate (call t pr c) pr cs"
      using Cons.prems(5) by (simp add: AddLevel)
    have "peakProfit ?q = 0" "erosionUsed ?q = - currentProfit ?q" "currentProfit ?q \<le> 0"
      and same: "currentProfit ?q = currentProfit p"
      using Cons.prems(2,3,4) by (simp_all add: withLevel_fields)
    from Cons.IH [OF q this(1,2,3) rest] same show ?thesis
      by (auto simp: AddLevel)
  qed
qed

text \<open>
  Claim C9. addPosition sets peakProfit to 0. So for a position created by addPosition
  whose currentProfit was negative after every update, peakProfit is still 0 and
  erosionUsed equals -currentProfit, the whole unrealized loss; once one update has
  happened, erosionUsed is positive although the position was never in profit.
\<close>

theorem erosion_accrues_from_zero_peak:
  assumes "positions t pr = None"
    and "lossAtEveryUpdate (addPosition t pr entry vol stop target ai adx0 rg cap now) pr cs"
  shows "map_option peakProfit
           (positions (addPosition t pr entry vol stop target ai adx0 rg cap now) pr) = Some 0
       \<and> (\<exists>p. positions (calls (addPosition t pr entry vol stop target ai adx0 rg cap now) pr cs) pr
                 = Some p
             \<and> peakProfit p = 0
             \<and> erosionUsed p = - currentProfit p
             \<and> (list_ex isUpdate cs \<longrightarrow> currentProfit p < 0 \<and> 0 < erosionUsed p))"
proof -
  note fresh = addPosition_fresh [OF assms(1), of entry vol stop target ai adx0 rg cap now]
  have "\<exists>p'. positions (calls (addPosition t pr entry vol stop target ai adx0 rg cap now) pr cs) pr
                = Some p'
            \<and> peakProfit p' = 0 \<and> erosionUsed p' = - currentProfit p' \<and> currentProfit p' \<le> 0
            \<and> (list_ex isUpdate cs \<or> (0::real) < 0 \<longrightarrow> currentProfit p' < 0)"
    using loss_run [OF fresh _ _ _ assms(2)] by simp
  then show ?thesis
    using fresh by auto
qed

theorem erosion_accrues_from_zero_peak_witness:
  "positions (newTracker []) ''BTC/USD'' = None
   \<and> lossAtEveryUpdate exampleOpen ''BTC/USD'' [Update 49000, Update 48000]
   \<and> (\<exists>p. positions (calls exampleOpen ''BTC/USD'' [Update 49000, Update 48000]) ''BTC/USD''
              = Some p
          \<and> peakProfit p = 0 \<and> erosionUsed p = - currentProfit p \<and> 0 < erosionUsed p)"
proof -
  have fresh: "positions (newTracker []) ''BTC/USD'' = None"
    by (simp add: newTracker_def)
  have run: "lossAtEveryUpdate exampleOpen ''BTC/USD'' [Update 49000, Update 48000]"
    by (simp add: updatePosition_def exampleOpen_position revalue_currentProfit revalue_fields)
  show ?thesis
    using fresh run
      erosion_accrues_from_zero_peak
        [OF fresh, of 50000 "0.1" 47500 55000 exampleDecision 25 moderate "0.008" 0
           "[Update 49000, Update 48000]"]
    unfolding exampleOpen_def by auto
qed

section \<open>The entry gate pipeline\<close>

lemma checkHealthGate_result:
  "stage (checkHealthGate rm a) = 1"
  "\<not> pass (checkHealthGate rm a) \<Longrightarrow> reason (checkHealthGate rm a) \<noteq> None"
  by (auto simp: checkHealthGate_def split: option.splits if_splits)

lemma checkDropProtection_result:
  "stage (checkDropProtection rm pr ticker ind) = 2"
  "\<not> pass (checkDropProtection rm pr ticker ind)
     \<Longrightarrow> reason (checkDropProtection rm pr ticker ind) \<noteq> None"
  by (auto simp: checkDropProtection_def split: option.splits if_splits)

lemma checkEntryQuality_result:
  "stage (checkEntryQuality price ind) = 3"
  "\<not> pass (checkEntryQuality price ind) \<Longrightarrow> reason (checkEntryQuality price ind) \<noteq> None"
  by (auto simp: checkEntryQuality_def Let_def split: if_splits)

lemma checkCostFloor_result:
  "stage (checkCostFloor rm costs) = 5"
  "\<not> pass (checkCostFloor rm costs) \<Longrightarrow> reason (checkCostFloor rm costs) \<noteq> None"
  by (auto simp: checkCostFloor_def split: if_splits)

text \<open>
  Claim C6. runFullRiskFilter runs the stages in ascending order and returns the result
  of the first stage that fails: that result has pass = false, the index of the stage
  and a reason. In particular an input that fails stage 1 is reported with stage 1
  whatever stage 3 would say about it. The pipeline returns pass = true only when none
  of the stages it runs (1, 2, 3 and 5) fails, and then with stage 5 and no reason.
  The statement relates the pipeline to the results of its stages, whatever these
  results are.
\<close>

theorem risk_filter_reports_first_failing_stage:
  "let health = checkHealthGate rm (Some (adx ind));
       drop = checkDropProtection rm pr ticker ind;
       quality = checkEntryQuality price ind;
       costCheck = checkCostFloor rm (calculateCosts rm pr price 0 target);
       result = runFullRiskFilter rm pr price ind ticker target
   in (\<not> pass health \<longrightarrow>
         result = health \<and> \<not> pass result \<and> stage result = 1 \<and> reason result \<noteq> None)
    \<and> (pass health \<and> \<not> pass drop \<longrightarrow>
         result = drop \<and> \<not> pass result \<and> stage result = 2 \<and> reason result \<noteq> None)
    \<and> (pass health \<and> pass drop \<and> \<not> pass quality \<longrightarrow>
         result = quality \<and> \<not> pass result \<and> stage result = 3 \<and> reason result \<noteq> None)
    \<and> (pass health \<and> pass drop \<and> pass quality \<and> \<not> pass costCheck \<longrightarrow>
         result = costCheck \<and> \<not> pass result \<and> stage result = 5 \<and> reason result \<noteq> None)
    \<and> (pass result \<longleftrightarrow> pass health \<and> pass drop \<and> pass quality \<and> pass costCheck)
    \<and> (pass result \<longrightarrow> stage result = 5 \<and> reason result = None)"
  using checkHealthGate_result(2) [of rm "Some (adx ind)"]
    checkDropProtection_result(2) [of rm pr ticker ind]
    checkEntryQuality_result(2) [of price ind]
    checkCostFloor_result(2) [of rm "calculateCosts rm pr price 0 target"]
  by (auto simp: Let_def runFullRiskFilter_def checkHealthGate_result(1)
      checkDropProtection_result(1) checkEntryQuality_result(1) checkCostFloor_result(1))

theorem risk_filter_reports_first_failing_stage_witness:
  "\<not> pass (checkHealthGate exampleManager (Some (adx choppyAtTop)))
   \<and> \<not> pass (checkEntryQuality 3000 choppyAtTop)
   \<and> \<not> pass (runFullRiskFilter exampleManager ''ETH/USD'' 3000 choppyAtTop None 300)
   \<and> stage (runFullRiskFilter exampleManager ''ETH/USD'' 3000 choppyAtTop None 300) = 1
   \<and> reason (runFullRiskFilter exampleManager ''ETH/USD'' 3000 choppyAtTop None 300)
       = Some (ChoppyMarket 15 20)"
proof -
  have h: "checkHealthGate exampleManager (Some (adx choppyAtTop))
             = \<lparr>pass = False, reason = Some (ChoppyMarket 15 20), stage = 1\<rparr>"
    by (simp add: checkHealthGate_def exampleManager_def defaultConfig_def choppyAtTop_def
        isChoppyMarket_def)
  have q: "\<not> pass (checkEntryQuality 3000 choppyAtTop)"
    by (simp add: checkEntryQuality_def choppyAtTop_def)
  show ?thesis
    using q risk_filter_reports_first_failing_stage
            [of exampleManager choppyAtTop "''ETH/USD''" None 3000 300]
    by (simp add: Let_def h)
qed

section \<open>The momentum failure detector\<close>

lemma detect_closed:
  assumes "\<not> momentumFailureEnabled cfg \<or> profitPct pos / 100 < momentumFailureMinProfit cfg"
  shows "detectMomentumFailure cfg md pos =
           \<lparr>shouldExit = False, priceActionFailure = False, volumeExhaustion = False,
            htfBreakdown = False, signalCount = 0, exitReasoning = []\<rparr>"
  using assms by (auto simp: detectMomentumFailure_def Let_def)

lemma detect_open:
  assumes en: "momentumFailureEnabled cfg"
    and pr: "momentumFailureMinProfit cfg \<le> profitPct pos / 100"
    and s1: "s1 = (momentum1h (indicators md)
              < (if 1 \<le> pyramidLevelsActivated pos then momentum4hFailureThreshold cfg
                 else momentum1hFailureThreshold cfg) * 100)"
    and s2: "s2 = (volumeRatio (indicators md)
              < (if 1 \<le> pyramidLevelsActivated pos then volumeExhaustionThreshold4h cfg
                 else volumeExhaustionThreshold1h cfg))"
    and s3: "s3 = (momentum4h (indicators md) < htfMomentumWeakening cfg * 100
            \<or> (currentPrice md < ema200 (indicators md) \<and> 0 < ema200 (indicators md)))"
  shows "priceActionFailure (detectMomentumFailure cfg md pos) = s1
       \<and> volumeExhaustion (detectMomentumFailure cfg md pos) = s2
       \<and> htfBreakdown (detectMomentumFailure cfg md pos) = s3
       \<and> signalCount (detectMomentumFailure cfg md pos) = length (filter id [s1, s2, s3])
       \<and> shouldExit (detectMomentumFailure cfg md pos) =
           (momentumFailureRequiredSignals cfg \<le> real (length (filter id [s1, s2, s3])))"
proof -
  have gate: "\<not> profitPct pos / 100 < momentumFailureMinProfit cfg"
    using pr by simp
  show ?thesis
  proof (cases s1; cases s2; cases s3;
      cases "momentum4h (indicators md) < htfMomentumWeakening cfg * 100")
  qed (use en gate s1 s2 s3 in \<open>simp_all add: detectMomentumFailure_def Let_def\<close>)
qed

text \<open>
  Claim C7. detectMomentumFailure returns shouldExit = true exactly when the feature is
  enabled, the profit fraction of the position (profitPct / 100) is at or above the
  configured minimum, and the number of true signals among price-action failure, volume
  exhaustion and higher-timeframe breakdown is at least the configured required count.
  When both gates are open the three flags of the result are the three signals and
  signalCount is their number. With the feature disabled, or with a profit fraction
  below the minimum, it never triggers, whatever the signals are. The quotient of the
  price by the recent high only selects which of two messages the first signal pushes
  to the reasoning trail; no signal depends on it.
\<close>

theorem momentum_failure_exit_iff:
  "let ind = indicators md;
       result = detectMomentumFailure cfg md pos;
       gatesOpen = (momentumFailureEnabled cfg \<and> momentumFailureMinProfit cfg \<le> profitPct pos / 100);
       momentumThreshold = (if 1 \<le> pyramidLevelsActivated pos then momentum4hFailureThreshold cfg
                            else momentum1hFailureThreshold cfg);
       volumeThreshold = (if 1 \<le> pyramidLevelsActivated pos then volumeExhaustionThreshold4h cfg
                          else volumeExhaustionThreshold1h cfg);
       signal1 = (momentum1h ind < momentumThreshold * 100);
       signal2 = (volumeRatio ind < volumeThreshold);
       signal3 = (momentum4h ind < htfMomentumWeakening cfg * 100
                  \<or> (currentPrice md < ema200 ind \<and> 0 < ema200 ind));
       trueSignals = length (filter id [signal1, signal2, signal3])
   in (shouldExit result \<longleftrightarrow>
         gatesOpen \<and> momentumFailureRequiredSignals cfg \<le> real trueSignals)
    \<and> (gatesOpen \<longrightarrow>
         priceActionFailure result = signal1 \<and> volumeExhaustion result = signal2
       \<and> htfBreakdown result = signal3 \<and> signalCount result = trueSignals)
    \<and> (\<not> momentumFailureEnabled cfg \<longrightarrow> \<not> shouldExit result)
    \<and> (profitPct pos / 100 < momentumFailureMinProfit cfg \<longrightarrow> \<not> shouldExit result)
    \<and> signalCount result
         = length (filter id [priceActionFailure result, volumeExhaustion result,
                              htfBreakdown result])"
proof (cases "momentumFailureEnabled cfg \<and> momentumFailureMinProfit cfg \<le> profitPct pos / 100")
  case True
  then show ?thesis
    using detect_open [of cfg pos _ md, OF _ _ refl refl refl]
    by (simp add: Let_def)
next
  case False
  then have "\<not> momentumFailureEnabled cfg \<or> profitPct pos / 100 < momentumFailureMinProfit cfg"
    by auto
  from detect_closed [OF this, of md] False show ?thesis
    by (auto simp: Let_def)
qed

theorem momentum_failure_exit_iff_witness:
  "momentumFailureEnabled defaultConfig
   \<and> momentumFailureMinProfit defaultConfig \<le> profitPct profitablePosition / 100
   \<and> shouldExit (detectMomentumFailure defaultConfig reversalData profitablePosition)
   \<and> signalCount (detectMomentumFailure defaultConfig reversalData profitablePosition) = 3
   \<and> \<not> shouldExit (detectMomentumFailure defaultConfig reversalData
                      (profitablePosition\<lparr>profitPct := 1.5\<rparr>))
   \<and> \<not> shouldExit (detectMomentumFailure (defaultConfig\<lparr>momentumFailureEnabled := False\<rparr>)
                      reversalData profitablePosition)"
  using momentum_failure_exit_iff [of reversalData defaultConfig profitablePosition]
    momentum_failure_exit_iff [of reversalData defaultConfig "profitablePosition\<lparr>profitPct := 1.5\<rparr>"]
    momentum_failure_exit_iff
      [of reversalData "defaultConfig\<lparr>momentumFailureEnabled := False\<rparr>" profitablePosition]
  by (simp add: Let_def defaultConfig_def reversalData_def profitablePosition_def)

section \<open>The risk fraction of the position sizer\<close>

lemma statsStep_wins:
  assumes "0 \<le> accProfit a" and "0 < accWinning a \<longrightarrow> 0 < accProfit a"
  shows "0 \<le> accProfit (statsStep a position)"
    and "0 < accWinning (statsStep a position) \<longrightarrow> 0 < accProfit (statsStep a position)"
  using assms by (auto simp: statsStep_def Let_def)

lemma statsLoop_wins:
  assumes "0 \<le> accProfit a" and "0 < accWinning a \<longrightarrow> 0 < accProfit a"
  shows "0 \<le> accProfit (statsLoop a ps)
       \<and> (0 < accWinning (statsLoop a ps) \<longrightarrow> 0 < accProfit (statsLoop a ps))"
  using assms
proof (induction ps arbitrary: a)
  case Nil
  then show ?case by simp
next
  case (Cons position ps)
  from Cons.IH [OF statsStep_wins [OF Cons.prems, of position]] show ?case
    by simp
qed

lemma stats_wins_have_profit:
  "0 < winningTrades (getPerformanceStats t) \<longrightarrow> 0 < totalProfit (getPerformanceStats t)"
  using statsLoop_wins
    [of "\<lparr>accProfit = 0, accLoss = 0, accWinning = 0, accLosing = 0,
          accMaxDrawdown = 0, accCumulative = 0, accPeak = 0\<rparr>" "closedPositions t"]
  by (simp add: getPerformanceStats_def Let_def)

lemma stats_totalTrades:
  "totalTrades (getPerformanceStats t) = length (closedPositions t)"
  by (simp add: getPerformanceStats_def Let_def)

lemma updatePerformance_trades:
  "sizerTotalTrades (updatePerformance s stats) = totalTrades stats"
  by (simp add: updatePerformance_def Let_def)

lemma isFinite_iff: "isFinite x \<longleftrightarrow> (\<exists>r. x = Number r)"
  by (cases x) auto

lemma updatePerformance_averages:
  assumes "accountBalance s \<noteq> 0" and "0 < totalTrades stats"
    and "0 < winningTrades stats \<longrightarrow> 0 < totalProfit stats"
  shows "isFinite (avgWinPct (updatePerformance s stats))"
    and "avgWinPct (updatePerformance s stats) \<noteq> Number 0"
    and "isFinite (avgLossPct (updatePerformance s stats))"
  using assms by (auto simp: updatePerformance_def Let_def)

lemma kellyPct_finite:
  assumes "isFinite (avgWinPct s)" and "avgWinPct s \<noteq> Number 0" and "isFinite (avgLossPct s)"
  shows "isFinite (kellyPct s)"
proof -
  obtain w l where "avgWinPct s = Number w" and "avgLossPct s = Number l"
    using assms(1,3) by (auto simp: isFinite_iff)
  with assms(2) show ?thesis
    by (simp add: kellyPct_def Let_def)
qed

lemma jsClamp_bounds:
  assumes "lo \<le> hi" and "x \<noteq> NaN"
  shows "\<exists>r. jsMax (Number lo) (jsMin (Number hi) x) = Number r \<and> lo \<le> r \<and> r \<le> hi"
  using assms by (cases x) auto

lemma jsClamp_finite:
  assumes "x \<noteq> NaN"
  shows "isFinite (jsMax (Number lo) (jsMin (Number hi) x))"
  using assms by (cases x) auto

lemma calculateKellyFraction_finite:
  assumes "sizerTotalTrades s = 0 \<or> isFinite (kellyPct s)"
  shows "isFinite (calculateKellyFraction s)"
proof (cases "sizerTotalTrades s = 0")
  case True
  then show ?thesis
    by (simp add: calculateKellyFraction_def)
next
  case False
  with assms have "kellyPct s \<noteq> NaN"
    by auto
  from jsClamp_finite [OF this, of "0.01" "0.10"] False show ?thesis
    by (auto simp: calculateKellyFraction_def Let_def isFinite_iff)
qed

lemma risk_caps_ordered: "MIN_RISK_PER_TRADE \<le> MAX_RISK_PER_TRADE"
  by (simp add: MIN_RISK_PER_TRADE_def MAX_RISK_PER_TRADE_def)

lemma calculateRiskPerTrade_finite:
  assumes "isFinite (calculateKellyFraction s)"
  shows "\<exists>r. calculateRiskPerTrade s c = Number r
            \<and> MIN_RISK_PER_TRADE \<le> r \<and> r \<le> MAX_RISK_PER_TRADE"
proof -
  obtain k where k: "calculateKellyFraction s = Number k"
    using assms by (auto simp: isFinite_iff)
  show ?thesis
    unfolding calculateRiskPerTrade_def Let_def k
    by (rule jsClamp_bounds [OF risk_caps_ordered]) simp
qed

lemma risk_per_trade_within_bounds_nonzero_balance:
  assumes "accountBalance s \<noteq> 0"
  shows "\<exists>r. calculateRiskPerTrade (updatePerformance s (getPerformanceStats t)) c = Number r
            \<and> MIN_RISK_PER_TRADE \<le> r \<and> r \<le> MAX_RISK_PER_TRADE"
proof -
  let ?s = "updatePerformance s (getPerformanceStats t)"
  have "sizerTotalTrades ?s = 0 \<or> isFinite (kellyPct ?s)"
  proof (cases "closedPositions t")
    case Nil
    then show ?thesis
      by (simp add: updatePerformance_trades stats_totalTrades)
  next
    case (Cons c cs)
    then have pos: "0 < totalTrades (getPerformanceStats t)"
      by (simp add: stats_totalTrades)
    show ?thesis
      using kellyPct_finite [OF updatePerformance_averages [OF assms pos stats_wins_have_profit]]
      by simp
  qed
  then have "isFinite (calculateKellyFraction ?s)"
    by (rule calculateKellyFraction_finite)
  then show ?thesis
    by (rule calculateRiskPerTrade_finite)
qed

lemma calculateKellyFraction_no_history:
  "sizerTotalTrades s = 0 \<Longrightarrow> calculateKellyFraction s = Number 0.05"
  by (simp add: calculateKellyFraction_def)

lemma zeroBalance_history:
  "getPerformanceStats (closePosition exampleL1 ''BTC/USD'' 53000 ''Profit Target'' 2) =
     \<lparr>totalTrades = 1, winningTrades = 1, losingTrades = 0, winRate = 100,
      totalProfit = 300, totalLoss = 0, expectancy = 300, profitFactor = Infinite,
      maxDrawdown = 0, maxDrawdownPct = 0\<rparr>"
proof -
  have closed: "closedPositions exampleL1 = []"
    by (simp add: exampleL1_def addPyramidLevel_def updatePosition_def exampleOpen_position
        exampleOpen_def addPosition_def newTracker_def)
  have "closedPositions (closePosition exampleL1 ''BTC/USD'' 53000 ''Profit Target'' 2)
          = [settle (the (positions exampleL1 ''BTC/USD'')) 53000 ''Profit Target'' 2]"
    by (simp add: closePosition_def exampleL1_position closed)
  moreover have "currentProfit (settle (the (positions exampleL1 ''BTC/USD'')) 53000 ''Profit Target'' 2)
                   = 300"
    by (simp add: exampleL1_position settle_currentProfit)
  ultimately show ?thesis
    by (simp add: getPerformanceStats_def Let_def statsStep_def)
qed

text \<open>
  Claim C8 says that the risk fraction returned by calculateRiskPerTrade lies within
  [MIN_RISK_PER_TRADE, MAX_RISK_PER_TRADE] = [0.01, 0.10] for every confidence and every
  performance history. With a nonzero account balance it does, as the lemma
  \<open>risk_per_trade_within_bounds_nonzero_balance\<close> shows for every closed history. With
  the balance set to 0 and a history of one winning trade, the average win is
  300 / (1 \<times> 0), that is Infinity; the raw Kelly value is Infinity / Infinity, that is
  NaN; both clamps pass NaN on, and calculateRiskPerTrade returns NaN, which lies in
  no interval.
\<close>

theorem risk_per_trade_is_NaN_at_zero_balance:
  "accountBalance (updateBalance (newSizer 1000) 0) = 0
   \<and> avgWinPct
        (updatePerformance (updateBalance (newSizer 1000) 0)
           (getPerformanceStats (closePosition exampleL1 ''BTC/USD'' 53000 ''Profit Target'' 2)))
       = PosInfinity
   \<and> calculateKellyFraction
        (updatePerformance (updateBalance (newSizer 1000) 0)
           (getPerformanceStats (closePosition exampleL1 ''BTC/USD'' 53000 ''Profit Target'' 2)))
       = NaN
   \<and> calculateRiskPerTrade
        (updatePerformance (updateBalance (newSizer 1000) 0)
           (getPerformanceStats (closePosition exampleL1 ''BTC/USD'' 53000 ''Profit Target'' 2)))
        80
       = NaN"
  by (simp add: zeroBalance_history updatePerformance_def updateBalance_def newSizer_def
      calculateRiskPerTrade_def calculateKellyFraction_def kellyPct_def getWinRate_def Let_def)

section \<open>Operations on an instrument without an open position\<close>

text \<open>
  Claim C10. For an instrument with no open position, each of checkStopLoss,
  checkProfitTarget, checkErosionCap, isReadyForL1, isReadyForL2 and addPyramidLevel
  returns false, and updatePosition, closePosition and the failed addPyramidLevel leave
  the tracker exactly as it was. The model has no error branch on these paths because
  the source has none: each method returns right after the failed lookup.
\<close>

theorem missing_instrument_is_noop:
  assumes "positions t pr = None"
  shows "\<not> checkStopLoss t pr price
       \<and> \<not> checkProfitTarget t pr price
       \<and> \<not> checkErosionCap t pr
       \<and> \<not> isReadyForL1 t pr profit trigger
       \<and> \<not> isReadyForL2 t pr profit trigger
       \<and> addPyramidLevel t pr lv entry vol conf now = (False, t)
       \<and> updatePosition t pr price = t
       \<and> closePosition t pr price why now = t"
  using assms
  by (simp add: checkStopLoss_def checkProfitTarget_def checkErosionCap_def
      isReadyForL1_def isReadyForL2_def addPyramidLevel_def updatePosition_def
      closePosition_def)

theorem missing_instrument_is_noop_witness:
  "positions \<lparr>positions = Map.empty, closedPositions = []\<rparr> ''ETH/USD'' = None
   \<and> \<not> checkStopLoss \<lparr>positions = Map.empty, closedPositions = []\<rparr> ''ETH/USD'' 3000
   \<and> \<not> checkErosionCap \<lparr>positions = Map.empty, closedPositions = []\<rparr> ''ETH/USD''
   \<and> addPyramidLevel \<lparr>positions = Map.empty, closedPositions = []\<rparr> ''ETH/USD'' 1 3000 2 90 7
         = (False, \<lparr>positions = Map.empty, closedPositions = []\<rparr>)
   \<and> closePosition \<lparr>positions = Map.empty, closedPositions = []\<rparr> ''ETH/USD'' 3000 ''Stop Loss'' 7
         = \<lparr>positions = Map.empty, closedPositions = []\<rparr>"
  using missing_instrument_is_noop
    [of "\<lparr>positions = Map.empty, closedPositions = []\<rparr>" "''ETH/USD''" 3000 0 0 1 3000 2 90 7
        "''Stop Loss''"]
  by simp

end
